theory Spec2Isabelle
  imports Complex_Main
begin

section \<open>Floating-point results\<close>

text \<open>
  The dashboard computes with numpy's 64-bit floats (the cells of a pandas column). Finite
  values are idealised as real numbers (no rounding, no overflow); what is kept of IEEE
  arithmetic is what decides the error paths: a division by zero does not raise, it yields an
  infinity or a NaN, and the special values propagate through the following operations.
\<close>

datatype fp = Finite real | PosInf | NegInf | NaN

fun is_finite :: "fp \<Rightarrow> bool" where
  "is_finite (Finite r) = True"
| "is_finite PosInf = False"
| "is_finite NegInf = False"
| "is_finite NaN = False"

text \<open>\<open>a / b\<close> on two finite floats.\<close>

definition fp_div :: "real \<Rightarrow> real \<Rightarrow> fp" where
  "fp_div a b =
     (if b \<noteq> 0 then Finite (a / b)
      else if 0 < a then PosInf
      else if a < 0 then NegInf
      else NaN)"

text \<open>\<open>x * c\<close> for a finite constant \<open>c\<close>.\<close>

fun fp_times :: "fp \<Rightarrow> real \<Rightarrow> fp" where
  "fp_times (Finite r) c = Finite (r * c)"
| "fp_times PosInf c = (if 0 < c then PosInf else if c < 0 then NegInf else NaN)"
| "fp_times NegInf c = (if 0 < c then NegInf else if c < 0 then PosInf else NaN)"
| "fp_times NaN c = NaN"

text \<open>\<open>x - c\<close> for a finite constant \<open>c\<close>.\<close>

fun fp_minus :: "fp \<Rightarrow> real \<Rightarrow> fp" where
  "fp_minus (Finite r) c = Finite (r - c)"
| "fp_minus PosInf c = PosInf"
| "fp_minus NegInf c = NegInf"
| "fp_minus NaN c = NaN"

text \<open>
  \<open>x ** e\<close> for a finite exponent \<open>e\<close> that is positive and not an integer (the only
  exponent the pages use is \<open>1 / num_years\<close>): a negative base has no real power and gives
  NaN, both infinities give \<open>+inf\<close>.
\<close>

fun fp_pow :: "fp \<Rightarrow> real \<Rightarrow> fp" where
  "fp_pow (Finite r) e = (if r < 0 then NaN else Finite (r powr e))"
| "fp_pow PosInf e = PosInf"
| "fp_pow NegInf e = PosInf"
| "fp_pow NaN e = NaN"

section \<open>Price data\<close>

type_synonym ticker = string
type_synonym sector = string
type_synonym date = nat

text \<open>One row of the frame \<open>yf.download\<close> returns; a frame is its rows in date order.\<close>

record row =
  rdate :: date
  ropen :: real
  rhigh :: real
  rlow :: real
  rclose :: real

type_synonym dataframe = "row list"

section \<open>Statistics of the S\&P 500, Sector Analysis and Stock Analysis pages\<close>

text \<open>
  \<open>start_date = end_date - timedelta(days=3*365)\<close>, so \<open>(end_date - start_date).days\<close> is
  \<open>3 * 365\<close> on every run, and \<open>num_years = (end_date - start_date).days / 365.25\<close>.
\<close>

definition num_years :: real where
  "num_years = (3 * 365) / 365.25"

text \<open>\<open>total_return = ((closing_value - opening_value) / opening_value) * 100\<close>\<close>

definition total_return :: "real \<Rightarrow> real \<Rightarrow> fp" where
  "total_return opening_value closing_value =
     fp_times (fp_div (closing_value - opening_value) opening_value) 100"

text \<open>\<open>cagr = ((closing_value / opening_value) ** (1 / num_years) - 1) * 100\<close>\<close>

definition cagr :: "real \<Rightarrow> real \<Rightarrow> fp" where
  "cagr opening_value closing_value =
     fp_times (fp_minus (fp_pow (fp_div closing_value opening_value) (1 / num_years)) 1) 100"

text \<open>
  The two cells of the summary table, as the three pages compute them from a loaded frame:
  \<open>opening_value = data['Open'].iloc[0]\<close>, \<open>closing_value = data['Close'].iloc[-1]\<close>, inside
  \<open>if not data.empty\<close>. The cells are formatted with \<open>f"{total_return:.2f}%"\<close> and
  \<open>f"{cagr:.2f}%"\<close>, which prints an infinity as \<open>inf%\<close> and a NaN as \<open>nan%\<close>; there is no
  other branch.
\<close>

record summary =
  Total_Return :: fp
  CAGR :: fp

definition summary_data :: "dataframe \<Rightarrow> summary option" where
  "summary_data data =
     (case data of
        [] \<Rightarrow> None
      | r # rs \<Rightarrow>
          (let opening_value = ropen r;
               closing_value = rclose (last (r # rs))
           in Some \<lparr>Total_Return = total_return opening_value closing_value,
                     CAGR = cagr opening_value closing_value\<rparr>))"

section \<open>Loading a series\<close>

text \<open>
  \<open>yf.download\<close> is the external provider: a call either raises or returns a frame, which may
  be empty. A provider gives, for a ticker, the outcome of its \<open>k\<close>-th call (\<open>k = 0\<close> first).
\<close>

datatype 'a attempt = Raises | Returns 'a

type_synonym provider = "ticker \<Rightarrow> nat \<Rightarrow> dataframe attempt"

text \<open>What the user is shown (\<open>st.warning\<close>, \<open>st.error\<close>) and the blocking \<open>time.sleep\<close>.\<close>

datatype event =
    Warning_retrying ticker nat
  | Sleep nat
  | Error_after_attempts ticker nat
  | Error_failed_to_load ticker
  | Error_no_valid_data
  | Error_sp500

text \<open>
  The body of the \<open>try\<close> in both loaders: an exception of the download and the
  \<open>ValueError\<close> raised on \<open>data.empty\<close> end in the same \<open>except Exception\<close>.
\<close>

fun try_download :: "dataframe attempt \<Rightarrow> dataframe option" where
  "try_download Raises = None"
| "try_download (Returns data) = (if data = [] then None else Some data)"

text \<open>
  The first \<open>load_data\<close> (with \<open>max_retries\<close> and \<open>retry_delay\<close>): the \<open>while\<close> loop, started
  at \<open>attempt = 0\<close>. It is the loader in scope while the S\&P 500, Sector Analysis and Stock
  Analysis pages run.
\<close>

function load_data_loop ::
  "(nat \<Rightarrow> dataframe attempt) \<Rightarrow> ticker \<Rightarrow> nat \<Rightarrow> nat \<Rightarrow> nat \<Rightarrow> event list \<times> dataframe option"
where
  "load_data_loop download ticker max_retries retry_delay attempt =
     (if attempt < max_retries then
        (case try_download (download attempt) of
           Some data \<Rightarrow> ([], Some data)
         | None \<Rightarrow>
             (case load_data_loop download ticker max_retries retry_delay (attempt + 1) of
                (evs, res) \<Rightarrow> (Warning_retrying ticker retry_delay # Sleep retry_delay # evs, res)))
      else ([Error_after_attempts ticker max_retries], None))"
  by pat_completeness auto
termination
  by (relation "measure (\<lambda>(download, ticker, max_retries, retry_delay, attempt).
        max_retries - attempt)") auto

declare load_data_loop.simps [simp del]

definition load_data ::
  "provider \<Rightarrow> ticker \<Rightarrow> nat \<Rightarrow> nat \<Rightarrow> event list \<times> dataframe option" where
  "load_data yf ticker max_retries retry_delay =
     load_data_loop (yf ticker) ticker max_retries retry_delay 0"

text \<open>
  The second \<open>load_data\<close>, defined before the Portfolio Comparison page: it replaces the
  first for everything below it, that is, for the Portfolio Comparison page, \<open>get_portfolios\<close>
  and the 3-Year Prediction page. One call of the provider, no loop.
\<close>

definition load_data2 :: "provider \<Rightarrow> ticker \<Rightarrow> event list \<times> dataframe option" where
  "load_data2 yf ticker =
     (case try_download (yf ticker 0) of
        Some data \<Rightarrow> ([], Some data)
      | None \<Rightarrow> ([Error_failed_to_load ticker], None))"

section \<open>Volatility ranking and portfolio selection\<close>

text \<open>
  \<open>sp500_companies\<close> is a dictionary from ticker to \<open>[name, sector]\<close>; a universe is the list
  of its items in iteration order. The keys of a dictionary are distinct (a key repeated in
  the literal keeps one item), which the theorems that need it assume of the list.
\<close>

type_synonym universe = "(ticker \<times> string \<times> sector) list"

text \<open>\<open>sp500_companies[ticker][1]\<close>; every ticker it is asked for comes from the dictionary.\<close>

definition sector_of :: "universe \<Rightarrow> ticker \<Rightarrow> sector option" where
  "sector_of sp500_companies ticker = map_option snd (map_of sp500_companies ticker)"

text \<open>
  The loop that fills \<open>volatilities\<close>, the same in the page and in \<open>get_portfolios\<close>. The
  value \<open>data['Close'].pct_change().std() * np.sqrt(252)\<close> is computed by pandas; it is the
  parameter \<open>volatility\<close>, taken as a real number.
\<close>

fun volatilities_loop ::
  "provider \<Rightarrow> (dataframe \<Rightarrow> real) \<Rightarrow> ticker list \<Rightarrow> event list \<times> (ticker \<times> real) list"
where
  "volatilities_loop yf volatility [] = ([], [])"
| "volatilities_loop yf volatility (ticker # rest) =
     (case load_data2 yf ticker of
        (ev, data) \<Rightarrow>
          (case volatilities_loop yf volatility rest of
             (evs, volatilities) \<Rightarrow>
               (ev @ evs,
                (case data of
                   None \<Rightarrow> volatilities
                 | Some d \<Rightarrow> (ticker, volatility d) # volatilities))))"

text \<open>
  \<open>sorted(volatilities.items(), key=lambda x: x[1], reverse=True)\<close>: descending by
  volatility, items of equal volatility in their original order.
\<close>

definition sorted_desc :: "(ticker \<times> real) list \<Rightarrow> (ticker \<times> real) list" where
  "sorted_desc items = sort_key (\<lambda>x. - snd x) items"

text \<open>The slices \<open>xs[:n]\<close> and \<open>xs[-n:]\<close> for \<open>n > 0\<close>.\<close>

definition first_n :: "nat \<Rightarrow> 'a list \<Rightarrow> 'a list" where
  "first_n n xs = take n xs"

definition last_n :: "nat \<Rightarrow> 'a list \<Rightarrow> 'a list" where
  "last_n n xs = drop (length xs - n) xs"

record portfolios =
  Aggressive :: "ticker list"
  Low_Risk :: "ticker list"
  Diversified :: "ticker list"

subsection \<open>The Portfolio Comparison page\<close>

definition aggressive_portfolio :: "(ticker \<times> real) list \<Rightarrow> ticker list" where
  "aggressive_portfolio sorted_volatilities = map fst (first_n 5 sorted_volatilities)"

definition low_risk_portfolio :: "(ticker \<times> real) list \<Rightarrow> ticker list" where
  "low_risk_portfolio sorted_volatilities = map fst (last_n 100 sorted_volatilities)"

definition sector_stocks ::
  "universe \<Rightarrow> (ticker \<times> real) list \<Rightarrow> sector \<Rightarrow> (ticker \<times> real) list" where
  "sector_stocks sp500_companies sorted_volatilities sector =
     filter (\<lambda>x. sector_of sp500_companies (fst x) = Some sector) sorted_volatilities"

text \<open>
  \<open>sectors = list(set(...))\<close> holds every sector of the dictionary once, in the iteration
  order of a Python set, which the program does not fix: the list is a parameter.
\<close>

fun diversified_portfolio ::
  "universe \<Rightarrow> (ticker \<times> real) list \<Rightarrow> sector list \<Rightarrow> ticker list" where
  "diversified_portfolio sp500_companies sorted_volatilities [] = []"
| "diversified_portfolio sp500_companies sorted_volatilities (sector # sectors) =
     map fst (first_n 2 (sector_stocks sp500_companies sorted_volatilities sector))
     @ map fst (last_n 2 (sector_stocks sp500_companies sorted_volatilities sector))
     @ diversified_portfolio sp500_companies sorted_volatilities sectors"

text \<open>
  Steps 1 to 3 of the page: what it shows while loading, and \<open>portfolio_data\<close>, which
  exists only in the \<open>else\<close> branch of \<open>if not volatilities\<close>.
\<close>

definition comparison_portfolio_data ::
  "provider \<Rightarrow> (dataframe \<Rightarrow> real) \<Rightarrow> universe \<Rightarrow> sector list
     \<Rightarrow> event list \<times> portfolios option" where
  "comparison_portfolio_data yf volatility sp500_companies sectors =
     (case volatilities_loop yf volatility (map fst sp500_companies) of
        (evs, volatilities) \<Rightarrow>
          if volatilities = [] then (evs @ [Error_no_valid_data], None)
          else
            (let sorted_volatilities = sorted_desc volatilities
             in (evs,
                 Some \<lparr>Aggressive = aggressive_portfolio sorted_volatilities,
                       Low_Risk = low_risk_portfolio sorted_volatilities,
                       Diversified =
                         diversified_portfolio sp500_companies sorted_volatilities sectors\<rparr>)))"

subsection \<open>\<open>get_portfolios\<close>, used by the 3-Year Prediction page\<close>

definition get_portfolios ::
  "provider \<Rightarrow> (dataframe \<Rightarrow> real) \<Rightarrow> universe \<Rightarrow> sector list
     \<Rightarrow> event list \<times> portfolios" where
  "get_portfolios yf volatility sp500_companies sectors =
     (case volatilities_loop yf volatility (map fst sp500_companies) of
        (evs, volatilities) \<Rightarrow>
          (let sorted_volatilities = sorted_desc volatilities
           in (evs,
               \<lparr>Aggressive = map fst (first_n 5 sorted_volatilities),
                Low_Risk = map fst (last_n 100 sorted_volatilities),
                Diversified =
                  concat (map (\<lambda>sector.
                    (let sector_stocks =
                           filter (\<lambda>x. sector_of sp500_companies (fst x) = Some sector)
                             sorted_volatilities
                     in map fst (first_n 2 sector_stocks) @ map fst (last_n 2 sector_stocks)))
                    sectors)\<rparr>)))"

section \<open>Portfolio aggregation\<close>

text \<open>
  A pandas series: its index and, for each date, a value or NaN (\<open>None\<close>). An index holds a
  date once.
\<close>

type_synonym series = "(date \<times> real option) list"

definition value_at :: "series \<Rightarrow> date \<Rightarrow> real option" where
  "value_at s d = (case map_of s d of Some (Some v) \<Rightarrow> Some v | _ \<Rightarrow> None)"

definition union_index :: "series list \<Rightarrow> date list" where
  "union_index columns = sort (remdups (concat (map (map fst) columns)))"

definition present :: "real option list \<Rightarrow> real list" where
  "present cells = concat (map (\<lambda>c. case c of None \<Rightarrow> [] | Some v \<Rightarrow> [v]) cells)"

definition row_mean :: "real option list \<Rightarrow> real option" where
  "row_mean cells =
     (if present cells = [] then None
      else Some (sum_list (present cells) / real (length (present cells))))"

text \<open>
  Modelled from the spec: \<open>pd.concat(columns, axis=1).mean(axis=1)\<close> is pandas, not code of the
  repository. Section 4.4: the series are aligned on date; for each date of the union of all
  series the result is the mean of the values present, the denominator being the number of
  series with a value that date. A date on which no series has a value gets NaN.
\<close>

definition concat_mean :: "series list \<Rightarrow> series" where
  "concat_mean columns =
     map (\<lambda>d. (d, row_mean (map (\<lambda>s. value_at s d) columns))) (union_index columns)"

text \<open>
  The loop over a portfolio's tickers, the same on both pages: the frames that loaded, with
  their tickers (\<open>valid_tickers\<close>).
\<close>

fun load_valid :: "provider \<Rightarrow> ticker list \<Rightarrow> (ticker \<times> dataframe) list" where
  "load_valid yf [] = []"
| "load_valid yf (ticker # tickers) =
     (case snd (load_data2 yf ticker) of
        None \<Rightarrow> load_valid yf tickers
      | Some data \<Rightarrow> (ticker, data) # load_valid yf tickers)"

text \<open>
  \<open>combined_returns\<close> of the Portfolio Comparison page, inside \<open>if portfolio_returns\<close>. The
  return series of a frame, \<open>data['Close'].pct_change()\<close>, is computed by pandas and is the
  parameter \<open>pct_change\<close>.
\<close>

definition combined_returns ::
  "provider \<Rightarrow> (dataframe \<Rightarrow> series) \<Rightarrow> ticker list \<Rightarrow> series option" where
  "combined_returns yf pct_change tickers =
     (let portfolio_returns = map (\<lambda>x. pct_change (snd x)) (load_valid yf tickers)
      in if portfolio_returns = [] then None else Some (concat_mean portfolio_returns))"

section \<open>Trend projection\<close>

text \<open>
  \<open>LinearRegression\<close> is scikit-learn's: the page creates a model, fits it, predicts with it
  and asks for its score. The page is modelled over any such regression.
\<close>

record 'm regression =
  fit :: "nat list \<Rightarrow> real list \<Rightarrow> 'm"
  predict :: "'m \<Rightarrow> nat list \<Rightarrow> real list"
  score :: "'m \<Rightarrow> nat list \<Rightarrow> real list \<Rightarrow> fp"

text \<open>
  What the page does for one portfolio: nothing at all, an uncaught exception, or the two
  lines written and the chart of the historical and the predicted values.
\<close>

datatype outcome =
    Nothing_shown
  | Raised
  | is_Projection: Projection
      (historical: "real list") (prediction: "real list") (shown_return: fp) (r_squared: fp)

text \<open>\<open>expected_return = (final_value - initial_value) / initial_value * 100\<close>\<close>

definition expected_return :: "real \<Rightarrow> real \<Rightarrow> fp" where
  "expected_return initial_value final_value =
     fp_times (fp_div (final_value - initial_value) initial_value) 100"

text \<open>
  The body of \<open>if combined_values\<close> from \<open>days = ...\<close> on, for the values of \<open>portfolio_df\<close>
  and a horizon in days (the page's is \<open>3*365\<close>). \<open>portfolio_df.values[-1]\<close> and
  \<open>prediction[-1]\<close> raise on an empty array.
\<close>

definition project :: "'m regression \<Rightarrow> nat \<Rightarrow> real list \<Rightarrow> outcome" where
  "project model horizon vals =
     (if vals = [] then Raised
      else
        (let days = [0..<length vals];
             m = fit model days vals;
             future_days = [length vals..<length vals + horizon];
             prediction = predict model m future_days
         in if prediction = [] then Raised
            else
              (let initial_value = last vals;
                   final_value = last prediction
               in Projection vals prediction (expected_return initial_value final_value)
                    (score model m days vals))))"

text \<open>\<open>data['Close']\<close>\<close>

definition close_series :: "dataframe \<Rightarrow> series" where
  "close_series data = map (\<lambda>r. (rdate r, Some (rclose r))) data"

text \<open>\<open>those\<close> of the values: scikit-learn refuses an input with a NaN (\<open>ValueError\<close>).\<close>

definition predict_portfolio :: "'m regression \<Rightarrow> provider \<Rightarrow> ticker list \<Rightarrow> outcome" where
  "predict_portfolio model yf tickers =
     (let combined_values = map (\<lambda>x. close_series (snd x)) (load_valid yf tickers)
      in if combined_values = [] then Nothing_shown
         else
           (case those (map snd (concat_mean combined_values)) of
              None \<Rightarrow> Raised
            | Some vals \<Rightarrow> project model (3 * 365) vals))"

text \<open>The page: the S\&P 500 gate, \<open>get_portfolios\<close>, then the three portfolios in order.\<close>

definition prediction_page ::
  "'m regression \<Rightarrow> provider \<Rightarrow> (dataframe \<Rightarrow> real) \<Rightarrow> universe \<Rightarrow> sector list
     \<Rightarrow> event list \<times> (string \<times> outcome) list" where
  "prediction_page model yf volatility sp500_companies sectors =
     (case load_data2 yf ''^GSPC'' of
        (ev, sp500) \<Rightarrow>
          (case sp500 of
             None \<Rightarrow> (ev @ [Error_sp500], [])
           | Some d \<Rightarrow>
               (case get_portfolios yf volatility sp500_companies sectors of
                  (evs, portfolios) \<Rightarrow>
                    (ev @ evs,
                     [(''Aggressive'', predict_portfolio model yf (Aggressive portfolios)),
                      (''Low-Risk'', predict_portfolio model yf (Low_Risk portfolios)),
                      (''Diversified'', predict_portfolio model yf (Diversified portfolios))]))))"

subsection \<open>Ordinary least squares\<close>

definition mean_of :: "real list \<Rightarrow> real" where
  "mean_of xs = sum_list xs / real (length xs)"

text \<open>
  Modelled from the spec: the fit of \<open>LinearRegression\<close> is scikit-learn's, not code of the
  repository. Section 4.5: ordinary least squares regression of value on a zero-based integer
  day index, a single straight line. The model is its slope and intercept. Where all day
  indices coincide every slope has the same squared error, and the slope is taken as 0.
\<close>

definition ols_fit :: "nat list \<Rightarrow> real list \<Rightarrow> real \<times> real" where
  "ols_fit days vals =
     (let xs = map real days;
          x_bar = mean_of xs;
          y_bar = mean_of vals;
          s_xy = sum_list (map2 (\<lambda>x y. (x - x_bar) * (y - y_bar)) xs vals);
          s_xx = sum_list (map (\<lambda>x. (x - x_bar) * (x - x_bar)) xs);
          slope = (if s_xx = 0 then 0 else s_xy / s_xx)
      in (slope, y_bar - slope * x_bar))"

text \<open>Modelled from the spec: evaluating the fitted line at day indices (section 4.5).\<close>

definition ols_predict :: "real \<times> real \<Rightarrow> nat list \<Rightarrow> real list" where
  "ols_predict m days = map (\<lambda>d. snd m + fst m * real d) days"

text \<open>
  Modelled from the spec: the coefficient of determination against the historical points,
  the fraction of the variance of the values that the fitted line explains (section 4.5 and
  the glossary).
\<close>

definition ols_score :: "real \<times> real \<Rightarrow> nat list \<Rightarrow> real list \<Rightarrow> fp" where
  "ols_score m days vals =
     (let y_bar = mean_of vals;
          ss_res = sum_list (map2 (\<lambda>y p. (y - p) * (y - p)) vals (ols_predict m days));
          ss_tot = sum_list (map (\<lambda>y. (y - y_bar) * (y - y_bar)) vals)
      in fp_div (ss_tot - ss_res) ss_tot)"

definition LinearRegression :: "(real \<times> real) regression" where
  "LinearRegression = \<lparr>fit = ols_fit, predict = ols_predict, score = ols_score\<rparr>"

section \<open>Inputs of the scenarios\<close>

definition one_row :: row where
  "one_row = \<lparr>rdate = 0, ropen = 100, rhigh = 101, rlow = 99, rclose = 100\<rparr>"

text \<open>A provider whose first two calls raise and whose third call returns one row.\<close>

definition flaky :: provider where
  "flaky ticker k = (if k < 2 then Raises else Returns [one_row])"

text \<open>A provider that has the index and none of the companies.\<close>

definition index_only :: provider where
  "index_only ticker k = (if ticker = ''^GSPC'' then Returns [one_row] else Raises)"

text \<open>A provider with a single trading day for every ticker.\<close>

definition one_day :: provider where
  "one_day ticker k = Returns [one_row]"

text \<open>Three companies of one sector, and their volatilities in dictionary order.\<close>

definition three_companies :: universe where
  "three_companies =
     [(''A'', ''Alpha'', ''X''), (''B'', ''Beta'', ''X''), (''C'', ''Gamma'', ''X'')]"

definition three_volatilities :: "(ticker \<times> real) list" where
  "three_volatilities = [(''A'', 0.10), (''B'', 0.30), (''C'', 0.20)]"

text \<open>A series that opens at 0 and closes at 1.\<close>

definition opens_at_zero :: dataframe where
  "opens_at_zero = [\<lparr>rdate = 0, ropen = 0, rhigh = 1, rlow = 0, rclose = 1\<rparr>]"

text \<open>The return series of two constituents over three dates, one value missing in each.\<close>

definition returns_A :: series where
  "returns_A = [(0, Some 0.01), (1, None), (2, Some 0.02)]"

definition returns_B :: series where
  "returns_B = [(0, Some 0.02), (1, Some 0.03), (2, None)]"

section \<open>Properties of the statistics\<close>

lemma fp_div_nonzero: "b \<noteq> 0 \<Longrightarrow> fp_div a b = Finite (a / b)"
  by (simp add: fp_div_def)

lemma fp_div_zero_not_finite: "\<not> is_finite (fp_div a 0)"
  by (simp add: fp_div_def)

lemma fp_times_not_finite: "\<not> is_finite x \<Longrightarrow> 0 < c \<Longrightarrow> \<not> is_finite (fp_times x c)"
  by (cases x) auto

lemma fp_minus_not_finite: "\<not> is_finite x \<Longrightarrow> \<not> is_finite (fp_minus x c)"
  by (cases x) auto

lemma fp_pow_not_finite: "\<not> is_finite x \<Longrightarrow> \<not> is_finite (fp_pow x e)"
  by (cases x) auto

lemma num_years_pos: "0 < num_years"
  by (simp add: num_years_def)

lemma total_return_zero_opening: "\<not> is_finite (total_return 0 c)"
  unfolding total_return_def
  by (rule fp_times_not_finite) (simp_all add: fp_div_zero_not_finite)

lemma cagr_zero_opening: "\<not> is_finite (cagr 0 c)"
  unfolding cagr_def
  by (intro fp_times_not_finite fp_minus_not_finite fp_pow_not_finite fp_div_zero_not_finite) simp

lemma summary_data_Some:
  "data \<noteq> [] \<Longrightarrow> summary_data data =
     Some \<lparr>Total_Return = total_return (ropen (hd data)) (rclose (last data)),
           CAGR = cagr (ropen (hd data)) (rclose (last data))\<rparr>"
  by (cases data) (simp_all add: summary_data_def Let_def)

text \<open>
  C4, as the claim states it, fails: a series that opens at 0 and closes at 1 gets no
  "undefined"; both cells of the table are \<open>+inf\<close>.
\<close>

theorem zero_opening_counterexample:
  "summary_data opens_at_zero = Some \<lparr>Total_Return = PosInf, CAGR = PosInf\<rparr>"
  by (simp add: summary_data_def opens_at_zero_def total_return_def cagr_def fp_div_def)

text \<open>
  C4, amended: for every loaded series the total return and the CAGR are the unguarded float
  formulas on the first open and the last close, and nothing is raised. When the opening
  value is 0 both are an infinity or a NaN, and that is what the table is given. When the
  opening value is negative and the closing value positive, the total return is an ordinary
  number and the CAGR is NaN. The horizon \<open>num_years\<close> is a constant and never 0.
\<close>

theorem stats_unguarded:
  assumes "data \<noteq> []"
  shows "\<exists>s. summary_data data = Some s
     \<and> Total_Return s = total_return (ropen (hd data)) (rclose (last data))
     \<and> CAGR s = cagr (ropen (hd data)) (rclose (last data))
     \<and> (ropen (hd data) = 0 \<longrightarrow> \<not> is_finite (Total_Return s) \<and> \<not> is_finite (CAGR s))
     \<and> (ropen (hd data) < 0 \<and> 0 < rclose (last data)
          \<longrightarrow> is_finite (Total_Return s) \<and> CAGR s = NaN)
     \<and> num_years \<noteq> 0"
proof -
  let ?o = "ropen (hd data)" and ?c = "rclose (last data)"
  have neg: "?o < 0 \<and> 0 < ?c \<longrightarrow> is_finite (total_return ?o ?c) \<and> cagr ?o ?c = NaN"
  proof
    assume h: "?o < 0 \<and> 0 < ?c"
    then have "?c / ?o < 0" by (simp add: divide_pos_neg)
    with h show "is_finite (total_return ?o ?c) \<and> cagr ?o ?c = NaN"
      by (simp add: total_return_def cagr_def fp_div_def)
  qed
  show ?thesis
    using assms neg num_years_pos
    by (simp add: summary_data_Some total_return_zero_opening cagr_zero_opening)
qed

theorem stats_unguarded_witness:
  "\<exists>s. summary_data opens_at_zero = Some s
     \<and> \<not> is_finite (Total_Return s) \<and> \<not> is_finite (CAGR s)"
proof -
  have ne: "opens_at_zero \<noteq> []" by (simp add: opens_at_zero_def)
  have z: "ropen (hd opens_at_zero) = 0" by (simp add: opens_at_zero_def)
  from stats_unguarded [OF ne] z show ?thesis by blast
qed

section \<open>Properties of the loaders\<close>

lemma load_data_loop_success:
  "attempt < max_retries \<Longrightarrow> try_download (download attempt) = Some data \<Longrightarrow>
     load_data_loop download ticker max_retries retry_delay attempt = ([], Some data)"
  by (subst load_data_loop.simps) simp

lemma load_data_loop_failure:
  "attempt < max_retries \<Longrightarrow> try_download (download attempt) = None \<Longrightarrow>
     load_data_loop download ticker max_retries retry_delay attempt =
       (Warning_retrying ticker retry_delay # Sleep retry_delay
          # fst (load_data_loop download ticker max_retries retry_delay (Suc attempt)),
        snd (load_data_loop download ticker max_retries retry_delay (Suc attempt)))"
  by (subst load_data_loop.simps) (simp split: prod.splits)

text \<open>
  C5: when the first two downloads of a ticker fail and the third succeeds, the first
  \<open>load_data\<close>, called with its default of 3 retries, returns the data of the third attempt
  after two warnings and two sleeps, and shows no error. The second \<open>load_data\<close>, the one the
  Portfolio Comparison and 3-Year Prediction pages call, makes the first download only,
  shows an error and returns \<open>None\<close>.
\<close>

theorem third_attempt:
  assumes "try_download (yf ticker 0) = None"
    and "try_download (yf ticker 1) = None"
    and "try_download (yf ticker 2) = Some data"
  shows "load_data yf ticker 3 retry_delay =
           ([Warning_retrying ticker retry_delay, Sleep retry_delay,
             Warning_retrying ticker retry_delay, Sleep retry_delay], Some data)
       \<and> load_data2 yf ticker = ([Error_failed_to_load ticker], None)"
proof -
  have 2: "load_data_loop (yf ticker) ticker 3 retry_delay 2 = ([], Some data)"
    using assms(3) by (simp add: load_data_loop_success)
  have 1: "load_data_loop (yf ticker) ticker 3 retry_delay (Suc 0) =
      ([Warning_retrying ticker retry_delay, Sleep retry_delay], Some data)"
    using assms(2) 2 by (simp add: load_data_loop_failure numeral_2_eq_2)
  have 0: "load_data_loop (yf ticker) ticker 3 retry_delay 0 =
      ([Warning_retrying ticker retry_delay, Sleep retry_delay,
        Warning_retrying ticker retry_delay, Sleep retry_delay], Some data)"
    using assms(1) 1 by (simp add: load_data_loop_failure)
  show ?thesis
    using 0 assms(1) by (simp add: load_data_def load_data2_def)
qed

theorem third_attempt_witness:
  "load_data flaky ''AAPL'' 3 5 =
     ([Warning_retrying ''AAPL'' 5, Sleep 5, Warning_retrying ''AAPL'' 5, Sleep 5],
      Some [one_row])
   \<and> load_data2 flaky ''AAPL'' = ([Error_failed_to_load ''AAPL''], None)"
  using third_attempt [of flaky "''AAPL''" "[one_row]" 5]
  by (simp add: flaky_def)

section \<open>Properties of the ranking and the selection\<close>

lemma volatilities_loop_all_fail:
  "list_all (\<lambda>t. try_download (yf t 0) = None) tickers \<Longrightarrow>
     volatilities_loop yf volatility tickers = (map Error_failed_to_load tickers, [])"
  by (induction tickers) (simp_all add: load_data2_def)

lemma volatilities_loop_keys:
  "map fst (snd (volatilities_loop yf volatility tickers)) =
     filter (\<lambda>t. try_download (yf t 0) \<noteq> None) tickers"
  by (induction tickers) (auto simp: load_data2_def split: prod.splits option.splits)

lemma volatilities_loop_nonempty:
  assumes "ticker \<in> set tickers" and "try_download (yf ticker 0) \<noteq> None"
  shows "snd (volatilities_loop yf volatility tickers) \<noteq> []"
proof -
  have "ticker \<in> set (map fst (snd (volatilities_loop yf volatility tickers)))"
    using assms by (simp add: volatilities_loop_keys)
  then show ?thesis by auto
qed

lemma sorted_desc_Nil_iff: "sorted_desc items = [] \<longleftrightarrow> items = []"
  by (metis sorted_desc_def length_sort length_0_conv)

lemma sorted_desc_descending: "sorted (map (\<lambda>x. - snd x) (sorted_desc items))"
  by (simp add: sorted_desc_def)

lemma set_sorted_desc: "set (sorted_desc items) = set items"
  by (simp add: sorted_desc_def)

lemma length_sorted_desc: "length (sorted_desc items) = length items"
  by (simp add: sorted_desc_def)

lemma diversified_portfolio_concat:
  "diversified_portfolio U sv sectors =
     concat (map (\<lambda>sector. map fst (first_n 2 (sector_stocks U sv sector))
                          @ map fst (last_n 2 (sector_stocks U sv sector))) sectors)"
  by (induction sectors) simp_all

lemma get_portfolios_eq:
  "get_portfolios yf volatility U sectors =
     (fst (volatilities_loop yf volatility (map fst U)),
      \<lparr>Aggressive =
         aggressive_portfolio (sorted_desc (snd (volatilities_loop yf volatility (map fst U)))),
       Low_Risk =
         low_risk_portfolio (sorted_desc (snd (volatilities_loop yf volatility (map fst U)))),
       Diversified =
         diversified_portfolio U
           (sorted_desc (snd (volatilities_loop yf volatility (map fst U)))) sectors\<rparr>)"
  by (simp add: get_portfolios_def Let_def aggressive_portfolio_def low_risk_portfolio_def
      diversified_portfolio_concat sector_stocks_def split: prod.splits)

text \<open>
  C9: the page and \<open>get_portfolios\<close> load the same tickers, show the same loading errors and
  select the same three portfolios whenever at least one ticker loads. When none loads they
  differ: the page shows "No valid data available for any tickers." and has no portfolios,
  \<open>get_portfolios\<close> returns three portfolios, all empty.
\<close>

theorem selection_implementations:
  "comparison_portfolio_data yf volatility U sectors =
     (case get_portfolios yf volatility U sectors of
        (evs, portfolios) \<Rightarrow>
          if snd (volatilities_loop yf volatility (map fst U)) = []
          then (evs @ [Error_no_valid_data], None)
          else (evs, Some portfolios))"
  by (simp add: comparison_portfolio_data_def get_portfolios_eq Let_def split: prod.splits)

theorem selection_implementations_witness:
  "comparison_portfolio_data index_only (\<lambda>d. 0) three_companies [''X''] =
     ([Error_failed_to_load ''A'', Error_failed_to_load ''B'', Error_failed_to_load ''C'',
       Error_no_valid_data], None)
 \<and> snd (get_portfolios index_only (\<lambda>d. 0) three_companies [''X'']) =
     \<lparr>Aggressive = [], Low_Risk = [], Diversified = []\<rparr>
 \<and> comparison_portfolio_data one_day (\<lambda>d. 0) three_companies [''X''] =
     ([], Some (snd (get_portfolios one_day (\<lambda>d. 0) three_companies [''X''])))"
proof -
  have a: "volatilities_loop index_only (\<lambda>d. 0) (map fst three_companies) =
      ([Error_failed_to_load ''A'', Error_failed_to_load ''B'', Error_failed_to_load ''C''], [])"
    by (simp add: three_companies_def index_only_def load_data2_def)
  have b: "volatilities_loop one_day (\<lambda>d. 0) (map fst three_companies) =
      ([], [(''A'', 0), (''B'', 0), (''C'', 0)])"
    by (simp add: three_companies_def one_day_def load_data2_def)
  show ?thesis
    using selection_implementations [of index_only "\<lambda>d. 0" three_companies "[''X'']"]
      selection_implementations [of one_day "\<lambda>d. 0" three_companies "[''X'']"]
    by (simp add: a b get_portfolios_eq aggressive_portfolio_def low_risk_portfolio_def
        sorted_desc_def first_n_def last_n_def sector_stocks_def split: prod.splits)
qed

text \<open>
  C7: when every ticker of the universe fails to load, the ranking is empty; the Portfolio
  Comparison page then shows its error and has no portfolios, while \<open>get_portfolios\<close>
  returns three empty portfolios and the 3-Year Prediction page, if the index loaded, goes
  through them with no error of its own and nothing shown. When some ticker of the universe
  loads, the ranking is not empty.
\<close>

theorem all_fail:
  "(list_all (\<lambda>t. try_download (yf t 0) = None) (map fst U) \<longrightarrow>
      sorted_desc (snd (volatilities_loop yf volatility (map fst U))) = []
    \<and> comparison_portfolio_data yf volatility U sectors =
           (map Error_failed_to_load (map fst U) @ [Error_no_valid_data], None)
    \<and> get_portfolios yf volatility U sectors =
           (map Error_failed_to_load (map fst U),
            \<lparr>Aggressive = [], Low_Risk = [], Diversified = []\<rparr>)
    \<and> (try_download (yf ''^GSPC'' 0) \<noteq> None \<longrightarrow>
         prediction_page model yf volatility U sectors =
           (map Error_failed_to_load (map fst U),
            [(''Aggressive'', Nothing_shown), (''Low-Risk'', Nothing_shown),
             (''Diversified'', Nothing_shown)])))
 \<and> ((\<exists>t \<in> set (map fst U). try_download (yf t 0) \<noteq> None) \<longrightarrow>
      sorted_desc (snd (volatilities_loop yf volatility (map fst U))) \<noteq> [])"
proof (intro conjI impI)
  assume a: "list_all (\<lambda>t. try_download (yf t 0) = None) (map fst U)"
  note v = volatilities_loop_all_fail [of yf "map fst U" volatility, OF a]
  show "sorted_desc (snd (volatilities_loop yf volatility (map fst U))) = []"
    using v by (simp add: sorted_desc_Nil_iff)
  show c: "comparison_portfolio_data yf volatility U sectors =
           (map Error_failed_to_load (map fst U) @ [Error_no_valid_data], None)"
    using v by (simp add: comparison_portfolio_data_def)
  show g: "get_portfolios yf volatility U sectors =
           (map Error_failed_to_load (map fst U),
            \<lparr>Aggressive = [], Low_Risk = [], Diversified = []\<rparr>)"
    using v by (simp add: get_portfolios_def sorted_desc_def first_n_def last_n_def)
  assume "try_download (yf ''^GSPC'' 0) \<noteq> None"
  then show "prediction_page model yf volatility U sectors =
           (map Error_failed_to_load (map fst U),
            [(''Aggressive'', Nothing_shown), (''Low-Risk'', Nothing_shown),
             (''Diversified'', Nothing_shown)])"
    using g by (auto simp: prediction_page_def load_data2_def predict_portfolio_def)
next
  assume "\<exists>t \<in> set (map fst U). try_download (yf t 0) \<noteq> None"
  then show "sorted_desc (snd (volatilities_loop yf volatility (map fst U))) \<noteq> []"
    using volatilities_loop_nonempty [of _ "map fst U" yf volatility]
    by (auto simp: sorted_desc_Nil_iff)
qed

theorem all_fail_witness:
  "sorted_desc (snd (volatilities_loop index_only (\<lambda>d. 0) (map fst three_companies))) = []
 \<and> comparison_portfolio_data index_only (\<lambda>d. 0) three_companies [''X''] =
      ([Error_failed_to_load ''A'', Error_failed_to_load ''B'', Error_failed_to_load ''C'',
        Error_no_valid_data], None)
 \<and> get_portfolios index_only (\<lambda>d. 0) three_companies [''X''] =
      ([Error_failed_to_load ''A'', Error_failed_to_load ''B'', Error_failed_to_load ''C''],
       \<lparr>Aggressive = [], Low_Risk = [], Diversified = []\<rparr>)
 \<and> prediction_page LinearRegression index_only (\<lambda>d. 0) three_companies [''X''] =
      ([Error_failed_to_load ''A'', Error_failed_to_load ''B'', Error_failed_to_load ''C''],
       [(''Aggressive'', Nothing_shown), (''Low-Risk'', Nothing_shown),
        (''Diversified'', Nothing_shown)])
 \<and> sorted_desc (snd (volatilities_loop one_day (\<lambda>d. 0) (map fst three_companies))) \<noteq> []"
proof -
  have f: "list_all (\<lambda>t. try_download (index_only t 0) = None) (map fst three_companies)"
    by (simp add: three_companies_def index_only_def)
  have i: "try_download (index_only ''^GSPC'' 0) \<noteq> None"
    by (simp add: index_only_def one_row_def)
  have l: "\<exists>t \<in> set (map fst three_companies). try_download (one_day t 0) \<noteq> None"
    by (auto simp: three_companies_def one_day_def)
  have m: "map fst three_companies = [''A'', ''B'', ''C'']"
    by (simp add: three_companies_def)
  from all_fail [of index_only three_companies "\<lambda>d. 0" "[''X'']" LinearRegression] f i
  have p1: "sorted_desc (snd (volatilities_loop index_only (\<lambda>d. 0) (map fst three_companies))) = []
    \<and> comparison_portfolio_data index_only (\<lambda>d. 0) three_companies [''X''] =
           (map Error_failed_to_load (map fst three_companies) @ [Error_no_valid_data], None)
    \<and> get_portfolios index_only (\<lambda>d. 0) three_companies [''X''] =
           (map Error_failed_to_load (map fst three_companies),
            \<lparr>Aggressive = [], Low_Risk = [], Diversified = []\<rparr>)
    \<and> prediction_page LinearRegression index_only (\<lambda>d. 0) three_companies [''X''] =
           (map Error_failed_to_load (map fst three_companies),
            [(''Aggressive'', Nothing_shown), (''Low-Risk'', Nothing_shown),
             (''Diversified'', Nothing_shown)])"
    by blast
  from all_fail [of one_day three_companies "\<lambda>d. 0" "[''X'']" LinearRegression] l
  have p2: "sorted_desc (snd (volatilities_loop one_day (\<lambda>d. 0) (map fst three_companies))) \<noteq> []"
    by blast
  have e: "map Error_failed_to_load (map fst three_companies) =
      [Error_failed_to_load ''A'', Error_failed_to_load ''B'', Error_failed_to_load ''C'']"
    by (simp add: m)
  show ?thesis
    using p1 p2 unfolding e by simp
qed

section \<open>Properties of the aggregation\<close>

lemma present_sum:
  "sum_list (present cells) = (\<Sum>c\<leftarrow>cells. case c of None \<Rightarrow> 0 | Some v \<Rightarrow> v)"
  by (induction cells) (simp_all add: present_def split: option.splits)

lemma present_length: "length (present cells) = length (filter (\<lambda>c. c \<noteq> None) cells)"
  by (induction cells) (simp_all add: present_def split: option.splits)

lemma present_Nil_iff: "present cells = [] \<longleftrightarrow> list_all (\<lambda>c. c = None) cells"
  by (induction cells) (simp_all add: present_def split: option.splits)

lemma row_mean_eq:
  "row_mean (map f columns) =
     (if list_all (\<lambda>s. f s = None) columns then None
      else Some ((\<Sum>s\<leftarrow>columns. case f s of None \<Rightarrow> 0 | Some v \<Rightarrow> v)
                 / real (length (filter (\<lambda>s. f s \<noteq> None) columns))))"
  by (simp add: row_mean_def present_sum present_length present_Nil_iff list.pred_map
      filter_map comp_def)

lemma map_of_concat_mean:
  "d \<in> set (union_index columns) \<Longrightarrow>
     map_of (concat_mean columns) d = Some (row_mean (map (\<lambda>s. value_at s d) columns))"
  by (simp add: concat_mean_def map_of_map_restrict)

lemma set_union_index: "set (union_index columns) = (\<Union>s \<in> set columns. fst ` set s)"
  by (simp add: union_index_def)

text \<open>
  C3: the aggregate has one row for each date of the union of the constituents' dates; its
  value is the sum of the values present that date divided by the number of constituents
  that have one, and NaN when none has. The two constituents of the scenario aggregate to
  0.015, 0.03, 0.02.
\<close>

theorem combined_returns_mean:
  "map fst (concat_mean columns) = union_index columns
 \<and> set (union_index columns) = (\<Union>s \<in> set columns. fst ` set s)
 \<and> (d \<in> set (union_index columns) \<longrightarrow>
      map_of (concat_mean columns) d =
        Some (if list_all (\<lambda>s. value_at s d = None) columns then None
              else Some ((\<Sum>s\<leftarrow>columns. case value_at s d of None \<Rightarrow> 0 | Some v \<Rightarrow> v)
                         / real (length (filter (\<lambda>s. value_at s d \<noteq> None) columns)))))
 \<and> (load_valid yf tickers \<noteq> [] \<longrightarrow>
      combined_returns yf pct_change tickers =
        Some (concat_mean (map (\<lambda>x. pct_change (snd x)) (load_valid yf tickers))))
 \<and> concat_mean [returns_A, returns_B] = [(0, Some 0.015), (1, Some 0.03), (2, Some 0.02)]"
proof -
  have 1: "map fst (concat_mean columns) = union_index columns"
    by (simp add: concat_mean_def comp_def)
  have 3: "d \<in> set (union_index columns) \<longrightarrow>
      map_of (concat_mean columns) d =
        Some (if list_all (\<lambda>s. value_at s d = None) columns then None
              else Some ((\<Sum>s\<leftarrow>columns. case value_at s d of None \<Rightarrow> 0 | Some v \<Rightarrow> v)
                         / real (length (filter (\<lambda>s. value_at s d \<noteq> None) columns))))"
    using map_of_concat_mean [of d columns] row_mean_eq [of "\<lambda>s. value_at s d" columns]
    by simp
  have 4: "load_valid yf tickers \<noteq> [] \<longrightarrow>
      combined_returns yf pct_change tickers =
        Some (concat_mean (map (\<lambda>x. pct_change (snd x)) (load_valid yf tickers)))"
    by (simp add: combined_returns_def)
  have 5: "concat_mean [returns_A, returns_B] = [(0, Some 0.015), (1, Some 0.03), (2, Some 0.02)]"
    by (simp add: concat_mean_def returns_A_def returns_B_def union_index_def row_mean_def
        present_def value_at_def)
  show ?thesis
    using 1 set_union_index [of columns] 3 4 5 by blast
qed

theorem combined_returns_mean_witness:
  "map_of (concat_mean [returns_A, returns_B]) 2 = Some (Some 0.02)
 \<and> combined_returns one_day (\<lambda>data. returns_A) [''A''] = Some (concat_mean [returns_A])"
proof -
  have u: "2 \<in> set (union_index [returns_A, returns_B])"
    by (simp add: union_index_def returns_A_def returns_B_def)
  have l: "load_valid one_day [''A''] = [(''A'', [one_row])]"
    by (simp add: load_data2_def one_day_def)
  then have n: "load_valid one_day [''A''] \<noteq> []"
    by simp
  have va: "value_at returns_A 2 = Some 0.02"
    by (simp add: value_at_def returns_A_def)
  have vb: "value_at returns_B 2 = None"
    by (simp add: value_at_def returns_B_def)
  have e: "(if list_all (\<lambda>s. value_at s 2 = None) [returns_A, returns_B] then None
       else Some ((\<Sum>s\<leftarrow>[returns_A, returns_B]. case value_at s 2 of None \<Rightarrow> 0 | Some v \<Rightarrow> v)
                  / real (length (filter (\<lambda>s. value_at s 2 \<noteq> None) [returns_A, returns_B]))))
      = Some 0.02"
    by (simp add: va vb del: not_None_eq)
  from combined_returns_mean
    [of "[returns_A, returns_B]" 2 one_day "[''A'']" "\<lambda>data. returns_A"] u n
  have "map_of (concat_mean [returns_A, returns_B]) 2 =
      Some (if list_all (\<lambda>s. value_at s 2 = None) [returns_A, returns_B] then None
       else Some ((\<Sum>s\<leftarrow>[returns_A, returns_B]. case value_at s 2 of None \<Rightarrow> 0 | Some v \<Rightarrow> v)
                  / real (length (filter (\<lambda>s. value_at s 2 \<noteq> None) [returns_A, returns_B]))))"
    and c: "combined_returns one_day (\<lambda>data. returns_A) [''A''] =
        Some (concat_mean (map (\<lambda>x. returns_A) (load_valid one_day [''A''])))"
    by blast+
  then show ?thesis
    unfolding e l by simp
qed

section \<open>Properties of the projection\<close>

lemma expected_return_nonzero:
  "initial_value \<noteq> 0 \<Longrightarrow>
     expected_return initial_value final_value =
       Finite ((final_value - initial_value) / initial_value * 100)"
  by (simp add: expected_return_def fp_div_def)

lemma expected_return_zero: "\<not> is_finite (expected_return 0 final_value)"
  by (simp add: expected_return_def fp_div_def)

lemma project_Projection:
  assumes "vals \<noteq> []"
    and "predict model (fit model [0..<length vals] vals)
           [length vals..<length vals + horizon] \<noteq> []"
  shows "project model horizon vals =
     Projection vals
       (predict model (fit model [0..<length vals] vals) [length vals..<length vals + horizon])
       (expected_return (last vals)
          (last (predict model (fit model [0..<length vals] vals)
                   [length vals..<length vals + horizon])))
       (score model (fit model [0..<length vals] vals) [0..<length vals] vals)"
  using assms by (simp add: project_def Let_def)

lemma project_not_Nothing_shown: "project model horizon vals \<noteq> Nothing_shown"
  by (simp add: project_def Let_def)

lemma ols_predict_Nil_iff: "ols_predict m days = [] \<longleftrightarrow> days = []"
  by (simp add: ols_predict_def)

lemma last_ols_predict:
  "0 < horizon \<Longrightarrow>
     last (ols_predict m [n..<n + horizon]) = snd m + fst m * real (n + horizon - 1)"
  by (simp add: ols_predict_def last_map)

text \<open>
  C2: the least squares line through 100, 102, 104, 106 at days 0 to 3, evaluated at days 4
  and 5, gives 108 and 110, and its coefficient of determination is 1. For every series with
  a nonzero last value the expected return shown is (final - last) / last * 100, where final
  is the fitted line at the last day of the horizon.
\<close>

theorem trend_projector_scenario:
  "project LinearRegression 2 [100, 102, 104, 106] =
     Projection [100, 102, 104, 106] [108, 110] (Finite (200 / 53)) (Finite 1)
 \<and> (vals \<noteq> [] \<and> 0 < horizon \<and> last vals \<noteq> 0 \<longrightarrow>
      is_Projection (project LinearRegression horizon vals)
    \<and> last (prediction (project LinearRegression horizon vals)) =
        snd (ols_fit [0..<length vals] vals)
          + fst (ols_fit [0..<length vals] vals) * real (length vals + horizon - 1)
    \<and> shown_return (project LinearRegression horizon vals) =
        Finite ((last (prediction (project LinearRegression horizon vals)) - last vals)
                / last vals * 100))"
proof -
  have s: "project LinearRegression 2 [100, 102, 104, 106] =
     Projection [100, 102, 104, 106] [108, 110] (Finite (200 / 53)) (Finite 1)"
    by (simp add: project_def LinearRegression_def ols_fit_def ols_predict_def ols_score_def
        mean_of_def expected_return_def fp_div_def upt_rec Let_def)
  have g: "vals \<noteq> [] \<and> 0 < horizon \<and> last vals \<noteq> 0 \<longrightarrow>
      is_Projection (project LinearRegression horizon vals)
    \<and> last (prediction (project LinearRegression horizon vals)) =
        snd (ols_fit [0..<length vals] vals)
          + fst (ols_fit [0..<length vals] vals) * real (length vals + horizon - 1)
    \<and> shown_return (project LinearRegression horizon vals) =
        Finite ((last (prediction (project LinearRegression horizon vals)) - last vals)
                / last vals * 100)"
  proof
    assume a: "vals \<noteq> [] \<and> 0 < horizon \<and> last vals \<noteq> 0"
    then have p: "predict LinearRegression (fit LinearRegression [0..<length vals] vals)
           [length vals..<length vals + horizon] \<noteq> []"
      by (simp add: LinearRegression_def ols_predict_Nil_iff)
    from a have v: "vals \<noteq> []" by simp
    show "is_Projection (project LinearRegression horizon vals)
    \<and> last (prediction (project LinearRegression horizon vals)) =
        snd (ols_fit [0..<length vals] vals)
          + fst (ols_fit [0..<length vals] vals) * real (length vals + horizon - 1)
    \<and> shown_return (project LinearRegression horizon vals) =
        Finite ((last (prediction (project LinearRegression horizon vals)) - last vals)
                / last vals * 100)"
      unfolding project_Projection [OF v p]
      using a by (simp add: LinearRegression_def last_ols_predict expected_return_nonzero)
  qed
  show ?thesis using s g by blast
qed

theorem trend_projector_scenario_witness:
  "is_Projection (project LinearRegression 2 [100, 102, 104, 106])
 \<and> prediction (project LinearRegression 2 [100, 102, 104, 106]) = [108, 110]
 \<and> shown_return (project LinearRegression 2 [100, 102, 104, 106]) = Finite ((110 - 106) / 106 * 100)
 \<and> r_squared (project LinearRegression 2 [100, 102, 104, 106]) = Finite 1"
  using trend_projector_scenario [of "[100, 102, 104, 106]" 2]
  by simp

text \<open>
  C10: the expected return the page shows is the unguarded quotient by the last historical
  value. With a nonzero last value it is the finite number (final - last) / last * 100; with
  a last value of 0 the division takes its error branch and the result is an infinity or a
  NaN.
\<close>

theorem expected_return_division:
  "(vals \<noteq> []
    \<and> predict model (fit model [0..<length vals] vals) [length vals..<length vals + horizon]
         \<noteq> [] \<longrightarrow>
      is_Projection (project model horizon vals)
    \<and> shown_return (project model horizon vals) =
        expected_return (last vals) (last (prediction (project model horizon vals))))
 \<and> (initial_value \<noteq> 0 \<longrightarrow>
      expected_return initial_value final_value =
        Finite ((final_value - initial_value) / initial_value * 100))
 \<and> (initial_value = 0 \<longrightarrow> \<not> is_finite (expected_return initial_value final_value))"
  using project_Projection [of vals model horizon]
    expected_return_nonzero [of initial_value final_value] expected_return_zero [of final_value]
  by auto

theorem expected_return_division_witness:
  "shown_return (project LinearRegression 2 [100, 102, 104, 106]) = Finite (200 / 53)
 \<and> shown_return (project LinearRegression 2 [2, 1, 0]) = NegInf
 \<and> \<not> is_finite (shown_return (project LinearRegression 2 [2, 1, 0]))"
proof -
  have a: "project LinearRegression 2 [100, 102, 104, 106] =
     Projection [100, 102, 104, 106] [108, 110] (Finite (200 / 53)) (Finite 1)"
    by (simp add: project_def LinearRegression_def ols_fit_def ols_predict_def ols_score_def
        mean_of_def expected_return_def fp_div_def upt_rec Let_def)
  have b: "project LinearRegression 2 [2, 1, 0] = Projection [2, 1, 0] [-1, -2] NegInf (Finite 1)"
    by (simp add: project_def LinearRegression_def ols_fit_def ols_predict_def ols_score_def
        mean_of_def expected_return_def fp_div_def upt_rec Let_def)
  show ?thesis
    using expected_return_division [of "[100, 102, 104, 106]" LinearRegression 2 106 110]
      expected_return_division [of "[2, 1, 0]" LinearRegression 2 0 "-2"]
    by (simp add: a b)
qed

text \<open>
  C6, as the claim states it, fails: a portfolio whose only constituent has a single trading
  day is not skipped; the page fits the line to the one point and shows a projection.
\<close>

theorem one_point_counterexample:
  "is_Projection (predict_portfolio LinearRegression one_day [''A''])
 \<and> historical (predict_portfolio LinearRegression one_day [''A'']) = [100]"
  by (simp add: predict_portfolio_def load_data2_def one_day_def one_row_def close_series_def
      concat_mean_def union_index_def row_mean_def present_def value_at_def project_def
      LinearRegression_def ols_predict_def Let_def)

text \<open>
  C6, amended: the page shows nothing for a portfolio exactly when none of its constituents
  loaded, and it does so silently; there is no "insufficient data" report. A series with a
  single point is passed to the regression as any other: the model is fitted to it, and the
  prediction, the expected return and the score computed from that fit are shown.
\<close>

theorem projection_skipped_only_without_data:
  "(predict_portfolio model yf tickers = Nothing_shown) = (load_valid yf tickers = [])
 \<and> project model horizon [v] =
     (if predict model (fit model [0] [v]) [1..<1 + horizon] = [] then Raised
      else Projection [v] (predict model (fit model [0] [v]) [1..<1 + horizon])
             (expected_return v (last (predict model (fit model [0] [v]) [1..<1 + horizon])))
             (score model (fit model [0] [v]) [0] [v]))"
proof -
  have 1: "(predict_portfolio model yf tickers = Nothing_shown) = (load_valid yf tickers = [])"
    using project_not_Nothing_shown [of model]
    by (simp add: predict_portfolio_def Let_def split: option.splits)
  have 2: "project model horizon [v] =
     (if predict model (fit model [0] [v]) [1..<1 + horizon] = [] then Raised
      else Projection [v] (predict model (fit model [0] [v]) [1..<1 + horizon])
             (expected_return v (last (predict model (fit model [0] [v]) [1..<1 + horizon])))
             (score model (fit model [0] [v]) [0] [v]))"
    by (simp add: project_def Let_def)
  show ?thesis using 1 2 by blast
qed

theorem projection_skipped_only_without_data_witness:
  "predict_portfolio LinearRegression index_only [''A''] = Nothing_shown
 \<and> predict_portfolio LinearRegression one_day [''A''] \<noteq> Nothing_shown
 \<and> is_Projection (project LinearRegression 2 [100])"
proof -
  have a: "load_valid index_only [''A''] = []"
    by (simp add: load_data2_def index_only_def)
  have b: "load_valid one_day [''A''] \<noteq> []"
    by (simp add: load_data2_def one_day_def)
  from projection_skipped_only_without_data [of LinearRegression index_only "[''A'']" 2 100] a
  have 1: "predict_portfolio LinearRegression index_only [''A''] = Nothing_shown"
    by blast
  from projection_skipped_only_without_data [of LinearRegression one_day "[''A'']" 2 100] b
  have 2: "predict_portfolio LinearRegression one_day [''A''] \<noteq> Nothing_shown"
    by blast
  have n: "predict LinearRegression (fit LinearRegression [0] [100]) [1..<1 + 2] \<noteq> []"
    by (simp add: LinearRegression_def ols_predict_def)
  from projection_skipped_only_without_data [of LinearRegression one_day "[''A'']" 2 100] n
  have 3: "is_Projection (project LinearRegression 2 [100])"
    by simp
  show ?thesis using 1 2 3 by blast
qed

section \<open>Properties of the three portfolios\<close>

text \<open>
  C8: for every ranking, Aggressive is its first \<open>min 5 n\<close> tickers and Low-Risk its last
  \<open>min 100 n\<close> tickers. With fewer than 100 entries Low-Risk is the whole ranking, so every
  Aggressive ticker is in Low-Risk as well: nothing removes it.
\<close>

theorem aggressive_low_risk_slices:
  "aggressive_portfolio sv = take (min 5 (length sv)) (map fst sv)
 \<and> length (aggressive_portfolio sv) = min 5 (length sv)
 \<and> low_risk_portfolio sv = drop (length sv - min 100 (length sv)) (map fst sv)
 \<and> length (low_risk_portfolio sv) = min 100 (length sv)
 \<and> (length sv < 100 \<longrightarrow>
       low_risk_portfolio sv = map fst sv
     \<and> set (aggressive_portfolio sv) \<subseteq> set (low_risk_portfolio sv))"
proof -
  have a: "aggressive_portfolio sv = take (min 5 (length sv)) (map fst sv)"
    by (simp add: aggressive_portfolio_def first_n_def take_map min_def)
  have l: "low_risk_portfolio sv = drop (length sv - min 100 (length sv)) (map fst sv)"
    by (simp add: low_risk_portfolio_def last_n_def drop_map min_def)
  have o: "length sv < 100 \<longrightarrow>
       low_risk_portfolio sv = map fst sv
     \<and> set (aggressive_portfolio sv) \<subseteq> set (low_risk_portfolio sv)"
    using set_take_subset [of 5 "map fst sv"]
    by (simp add: low_risk_portfolio_def last_n_def aggressive_portfolio_def first_n_def take_map)
  show ?thesis
    using o by (simp add: a l)
qed

theorem aggressive_low_risk_slices_witness:
  "aggressive_portfolio (sorted_desc three_volatilities) = [''B'', ''C'', ''A'']
 \<and> low_risk_portfolio (sorted_desc three_volatilities) = [''B'', ''C'', ''A'']
 \<and> set (aggressive_portfolio (sorted_desc three_volatilities))
      \<subseteq> set (low_risk_portfolio (sorted_desc three_volatilities))"
proof -
  have s: "sorted_desc three_volatilities = [(''B'', 0.30), (''C'', 0.20), (''A'', 0.10)]"
    by (simp add: sorted_desc_def three_volatilities_def)
  show ?thesis
    using aggressive_low_risk_slices [of "sorted_desc three_volatilities"]
    by (simp add: s)
qed

subsection \<open>The Diversified portfolio\<close>

lemma top_bottom_distinct_iff:
  assumes "distinct xs"
  shows "distinct (take 2 xs @ drop (length xs - 2) xs) \<longleftrightarrow> xs = [] \<or> 4 \<le> length xs"
proof (cases "4 \<le> length xs")
  case True
  have "distinct (take 2 xs @ drop 2 xs)" using assms by simp
  then have d: "set (take 2 xs) \<inter> set (drop 2 xs) = {}"
    unfolding distinct_append by (elim conjE)
  have "set (drop (length xs - 2) xs) \<subseteq> set (drop 2 xs)"
    using True by (intro set_drop_subset_set_drop) simp
  with d have "set (take 2 xs) \<inter> set (drop (length xs - 2) xs) = {}" by blast
  with assms True show ?thesis by simp
next
  case False
  show ?thesis
  proof (cases xs)
    case Nil
    then show ?thesis by simp
  next
    case xs: (Cons a ys)
    show ?thesis
    proof (cases ys)
      case Nil
      with xs show ?thesis by simp
    next
      case ys: (Cons b zs)
      show ?thesis
      proof (cases zs)
        case Nil
        with xs ys show ?thesis by simp
      next
        case (Cons c ws)
        with xs ys False have "ws = []" by (cases ws) simp_all
        with xs ys Cons show ?thesis by simp
      qed
    qed
  qed
qed

lemma sector_stocks_distinct:
  "distinct (map fst sv) \<Longrightarrow> distinct (map fst (sector_stocks U sv s))"
  by (simp add: sector_stocks_def distinct_map_filter)

lemma sector_stocks_sector:
  "x \<in> set (sector_stocks U sv s) \<Longrightarrow> sector_of U (fst x) = Some s"
  by (simp add: sector_stocks_def)

lemma diversified_portfolio_single:
  "diversified_portfolio U sv [s] =
     take 2 (map fst (sector_stocks U sv s))
       @ drop (length (map fst (sector_stocks U sv s)) - 2) (map fst (sector_stocks U sv s))"
  by (simp add: first_n_def last_n_def take_map drop_map)

lemma diversified_portfolio_Cons:
  "diversified_portfolio U sv (s # sectors) =
     diversified_portfolio U sv [s] @ diversified_portfolio U sv sectors"
  by simp

lemma diversified_portfolio_set:
  "set (diversified_portfolio U sv sectors) =
     (\<Union>s \<in> set sectors. fst ` (set (first_n 2 (sector_stocks U sv s))
                              \<union> set (last_n 2 (sector_stocks U sv s))))"
  by (induction sectors) (auto simp: image_Un)

lemma diversified_portfolio_sector:
  assumes "t \<in> set (diversified_portfolio U sv sectors)"
  shows "\<exists>s \<in> set sectors. sector_of U t = Some s"
proof -
  from assms obtain s x where s: "s \<in> set sectors" and t: "t = fst x"
    and x: "x \<in> set (first_n 2 (sector_stocks U sv s)) \<union> set (last_n 2 (sector_stocks U sv s))"
    unfolding diversified_portfolio_set by blast
  have "x \<in> set (sector_stocks U sv s)"
    using x set_take_subset set_drop_subset unfolding first_n_def last_n_def by fast
  then show ?thesis using s t sector_stocks_sector by blast
qed

lemma diversified_portfolio_distinct_iff:
  assumes "distinct (map fst sv)" and "distinct sectors"
  shows "distinct (diversified_portfolio U sv sectors) \<longleftrightarrow>
     list_all (\<lambda>s. sector_stocks U sv s = [] \<or> 4 \<le> length (sector_stocks U sv s)) sectors"
  using assms(2)
proof (induction sectors)
  case Nil
  then show ?case by simp
next
  case (Cons s sectors)
  have one: "distinct (diversified_portfolio U sv [s]) \<longleftrightarrow>
      sector_stocks U sv s = [] \<or> 4 \<le> length (sector_stocks U sv s)"
    unfolding diversified_portfolio_single
    using top_bottom_distinct_iff [OF sector_stocks_distinct [OF assms(1)], of U s] by simp
  have disj: "set (diversified_portfolio U sv [s]) \<inter> set (diversified_portfolio U sv sectors) = {}"
  proof -
    { fix t assume 1: "t \<in> set (diversified_portfolio U sv [s])"
        and 2: "t \<in> set (diversified_portfolio U sv sectors)"
      from diversified_portfolio_sector [OF 1] have "sector_of U t = Some s" by simp
      moreover from diversified_portfolio_sector [OF 2] obtain s' where
        "s' \<in> set sectors" "sector_of U t = Some s'" by blast
      ultimately have False using Cons.prems by auto }
    then show ?thesis by blast
  qed
  have "distinct (diversified_portfolio U sv (s # sectors)) \<longleftrightarrow>
      distinct (diversified_portfolio U sv [s]) \<and> distinct (diversified_portfolio U sv sectors)"
    using disj unfolding diversified_portfolio_Cons [of U sv s sectors] distinct_append by blast
  also have "\<dots> \<longleftrightarrow> list_all (\<lambda>s. sector_stocks U sv s = [] \<or> 4 \<le> length (sector_stocks U sv s))
      (s # sectors)"
    using Cons one by (simp del: diversified_portfolio.simps)
  finally show ?case .
qed

text \<open>
  C1, as the claim states it, fails: with the three companies of one sector ranked B, C, A,
  the first two are B, C and the last two are C, A, and the Diversified portfolio holds C
  twice.
\<close>

theorem diversified_duplicate_counterexample:
  "diversified_portfolio three_companies (sorted_desc three_volatilities) [''X'']
     = [''B'', ''C'', ''C'', ''A'']
 \<and> \<not> distinct (diversified_portfolio three_companies (sorted_desc three_volatilities) [''X''])"
  by (simp add: three_companies_def three_volatilities_def sorted_desc_def sector_stocks_def
      sector_of_def first_n_def last_n_def)

text \<open>
  C1, amended: the Diversified portfolio is the concatenation, sector by sector, of the first
  2 and the last 2 entries of the sector's sub-ranking, and nothing collapses duplicates. Its
  set of symbols is the union over the sectors of top-2 and bottom-2. A sector with exactly 3
  members contributes 4 entries with at most 3 distinct symbols. For a ranking without
  repeated tickers and a list of sectors without repetition, the portfolio is free of
  duplicates exactly when every sector has either no ranked member or at least 4. The list
  \<open>get_portfolios\<close> returns is the same one.
\<close>

theorem diversified_portfolio_contents:
  "set (diversified_portfolio U sv sectors) =
     (\<Union>s \<in> set sectors. fst ` (set (first_n 2 (sector_stocks U sv s))
                              \<union> set (last_n 2 (sector_stocks U sv s))))
 \<and> (length (sector_stocks U sv s) = 3 \<longrightarrow>
       length (diversified_portfolio U sv [s]) = 4
     \<and> card (set (diversified_portfolio U sv [s])) \<le> 3)
 \<and> (distinct (map fst sv) \<and> distinct sectors \<longrightarrow>
       distinct (diversified_portfolio U sv sectors) =
         list_all (\<lambda>s. sector_stocks U sv s = [] \<or> 4 \<le> length (sector_stocks U sv s))
           sectors)
 \<and> Diversified (snd (get_portfolios yf volatility U sectors)) =
       diversified_portfolio U
         (sorted_desc (snd (volatilities_loop yf volatility (map fst U)))) sectors"
proof -
  have three: "length (sector_stocks U sv s) = 3 \<longrightarrow>
       length (diversified_portfolio U sv [s]) = 4
     \<and> card (set (diversified_portfolio U sv [s])) \<le> 3"
  proof
    assume l: "length (sector_stocks U sv s) = 3"
    then obtain a b c where abc: "map fst (sector_stocks U sv s) = [a, b, c]"
      by (metis (no_types, opaque_lifting) length_map length_0_conv length_Suc_conv
          numeral_3_eq_3)
    have d: "diversified_portfolio U sv [s] = [a, b, b, c]"
      unfolding diversified_portfolio_single abc by simp
    have "card {a, b, c} \<le> 3"
      by (simp add: card_insert_le_m1)
    then show "length (diversified_portfolio U sv [s]) = 4
        \<and> card (set (diversified_portfolio U sv [s])) \<le> 3"
      unfolding d by (simp add: insert_commute)
  qed
  show ?thesis
    using three diversified_portfolio_distinct_iff [of sv sectors U]
    by (simp add: diversified_portfolio_set get_portfolios_eq del: diversified_portfolio.simps)
qed

theorem diversified_portfolio_contents_witness:
  "set (diversified_portfolio three_companies (sorted_desc three_volatilities) [''X''])
     = {''A'', ''B'', ''C''}
 \<and> length (diversified_portfolio three_companies (sorted_desc three_volatilities) [''X'']) = 4
 \<and> card (set (diversified_portfolio three_companies (sorted_desc three_volatilities) [''X'']))
      \<le> 3
 \<and> \<not> distinct (diversified_portfolio three_companies (sorted_desc three_volatilities) [''X''])"
proof -
  have s: "sorted_desc three_volatilities = [(''B'', 3 / 10), (''C'', 1 / 5), (''A'', 1 / 10)]"
    by (simp add: sorted_desc_def three_volatilities_def)
  have st: "sector_stocks three_companies (sorted_desc three_volatilities) ''X''
      = sorted_desc three_volatilities"
    by (simp add: s sector_stocks_def sector_of_def three_companies_def)
  have d: "distinct (map fst (sorted_desc three_volatilities)) \<and> distinct [''X'']"
    by (simp add: s)
  have l: "length (sorted_desc three_volatilities) = 3"
    by (simp add: s)
  have f: "fst ` (set (first_n 2 (sorted_desc three_volatilities))
                 \<union> set (last_n 2 (sorted_desc three_volatilities))) = {''A'', ''B'', ''C''}"
    by (auto simp: s first_n_def last_n_def)
  have ne: "sorted_desc three_volatilities \<noteq> []"
    by (simp add: s)
  note t = diversified_portfolio_contents
      [of three_companies "sorted_desc three_volatilities" "[''X'']" "''X''" index_only "\<lambda>d. 0"]
  note 1 = t [THEN conjunct1]
    and 2 = t [THEN conjunct2, THEN conjunct1]
    and 3 = t [THEN conjunct2, THEN conjunct2, THEN conjunct1]
  from 1 have a: "set (diversified_portfolio three_companies (sorted_desc three_volatilities) [''X''])
      = {''A'', ''B'', ''C''}"
    by (simp add: st f del: diversified_portfolio.simps)
  from 2 have "length (diversified_portfolio three_companies (sorted_desc three_volatilities) [''X'']) = 4
     \<and> card (set (diversified_portfolio three_companies (sorted_desc three_volatilities) [''X'']))
          \<le> 3"
    by (simp add: st l del: diversified_portfolio.simps)
  then have b1: "length (diversified_portfolio three_companies
        (sorted_desc three_volatilities) [''X'']) = 4"
    and b2: "card (set (diversified_portfolio three_companies
        (sorted_desc three_volatilities) [''X''])) \<le> 3"
    by (rule conjunct1, rule conjunct2)
  from 3 [THEN mp, OF d]
  have "distinct (diversified_portfolio three_companies (sorted_desc three_volatilities) [''X'']) =
      (sorted_desc three_volatilities = [] \<or> 4 \<le> length (sorted_desc three_volatilities))"
    by (simp add: st del: diversified_portfolio.simps)
  with ne l have c: "\<not> distinct (diversified_portfolio three_companies
      (sorted_desc three_volatilities) [''X''])"
    by (simp del: diversified_portfolio.simps)
  show ?thesis by (intro conjI a b1 b2 c)
qed

end
